theory Spec2Isabelle
  imports Main "HOL-Library.Multiset"
begin

section \<open>JavaScript arrays\<close>

text \<open>
  The source manipulates its tables with \<^verbatim>\<open>Array.prototype.indexOf\<close> and
  \<^verbatim>\<open>Array.prototype.splice\<close>.  Both are modelled with the corner cases of the
  language standard: \<^verbatim>\<open>indexOf\<close> answers \<open>-1\<close> when the element is absent, and
  \<^verbatim>\<open>splice\<close> counts a negative start from the end of the array.
\<close>

fun index_aux :: "'a list \<Rightarrow> 'a \<Rightarrow> nat \<Rightarrow> int" where
  "index_aux [] x i = - 1"
| "index_aux (y # ys) x i = (if y = x then int i else index_aux ys x (Suc i))"

definition indexOf :: "'a list \<Rightarrow> 'a \<Rightarrow> nat \<Rightarrow> int" where
  \<comment> \<open>\<^verbatim>\<open>xs.indexOf(x, fromIndex)\<close> for a non-negative \<^verbatim>\<open>fromIndex\<close>\<close>
  "indexOf xs x fromIndex = index_aux (drop fromIndex xs) x fromIndex"

definition actualStart :: "int \<Rightarrow> nat \<Rightarrow> nat" where
  \<comment> \<open>the relative start of \<^verbatim>\<open>splice\<close>, clamped to the array\<close>
  "actualStart start len =
     (if start < 0 then nat (max (int len + start) 0) else min (nat start) len)"

definition splice_from :: "'a list \<Rightarrow> int \<Rightarrow> 'a list" where
  \<comment> \<open>the array left by \<^verbatim>\<open>xs.splice(start)\<close>: everything from the start on is deleted\<close>
  "splice_from xs start = take (actualStart start (length xs)) xs"

definition splice_js :: "'a list \<Rightarrow> int \<Rightarrow> nat \<Rightarrow> 'a list" where
  \<comment> \<open>the array left by \<^verbatim>\<open>xs.splice(start, deleteCount)\<close>\<close>
  "splice_js xs start deleteCount =
     (let a = actualStart start (length xs)
      in take a xs @ drop (a + min deleteCount (length xs - a)) xs)"

section \<open>Values, listeners and payloads\<close>

datatype jsval = Null | Bool bool | Num int | Str string

datatype error =
    NotFound          \<comment> \<open>CouchDB status 404\<close>
  | Conflict          \<comment> \<open>CouchDB status 409\<close>
  | DuplicateTrigger string
  | TypeError string
  | Error string

text \<open>
  A function value is known by its identity.  \<open>Handler h\<close> is a function written by a
  module author; \<open>Wrapper c f\<close> is the closure that the \<open>c\<close>-th call of
  \<^verbatim>\<open>Module.registerEvent\<close> builds around the function \<open>f\<close>.
\<close>

datatype listener = Handler nat | Wrapper nat listener

text \<open>
  The argument of an event: a \<^verbatim>\<open>Discord.Guild\<close>, an object whose \<^verbatim>\<open>guild\<close> field is
  one, or anything else.
\<close>

datatype payload = Guild nat | WithGuild nat | Plain jsval

datatype 'a promise = Pending | Resolved 'a | Rejected error

section \<open>The CouchDB server behind \<^verbatim>\<open>nano\<close>\<close>

text \<open>
  The database is an external collaborator.  It is modelled as far as the store uses it:
  documents are kept by id with a revision counter; a document inserted without an
  \<^verbatim>\<open>_id\<close> is filed under an identifier that the server generates; an update or a
  deletion must quote the current revision.
\<close>

record document =
  doc_id :: "string option"
  doc_rev :: "nat option"
  val :: jsval

record couch =
  docs :: "string \<rightharpoonup> (nat \<times> jsval)"
  uuid_of :: "nat \<Rightarrow> string"
  issued :: nat

definition db_get :: "couch \<Rightarrow> string \<Rightarrow> error + document" where
  "db_get c k =
     (case docs c k of
        None \<Rightarrow> Inl NotFound
      | Some (r, v) \<Rightarrow> Inr \<lparr>doc_id = Some k, doc_rev = Some r, val = v\<rparr>)"

definition db_put :: "couch \<Rightarrow> string \<Rightarrow> document \<Rightarrow> error + couch" where
  "db_put c i d =
     (case docs c i of
        None \<Rightarrow>
          (if doc_rev d = None then Inr (c\<lparr>docs := (docs c)(i \<mapsto> (1, val d))\<rparr>)
           else Inl Conflict)
      | Some (r, v) \<Rightarrow>
          (if doc_rev d = Some r then Inr (c\<lparr>docs := (docs c)(i \<mapsto> (Suc r, val d))\<rparr>)
           else Inl Conflict))"

definition db_insert :: "couch \<Rightarrow> document \<Rightarrow> error + couch" where
  "db_insert c d =
     (case doc_id d of
        Some i \<Rightarrow> db_put c i d
      | None \<Rightarrow> db_put (c\<lparr>issued := Suc (issued c)\<rparr>) (uuid_of c (issued c)) d)"

definition db_destroy :: "couch \<Rightarrow> string \<Rightarrow> nat option \<Rightarrow> error + couch" where
  "db_destroy c k rv =
     (case docs c k of
        None \<Rightarrow> Inl NotFound
      | Some (r, v) \<Rightarrow>
          (if rv = Some r then Inr (c\<lparr>docs := (docs c)(k := None)\<rparr>) else Inl Conflict))"

section \<open>\<^verbatim>\<open>CouchDataStore\<close>\<close>

text \<open>
  A \<^verbatim>\<open>DataSubscription\<close> is an object; \<open>sub_ref\<close> is its identity, which is what
  \<^verbatim>\<open>indexOf\<close> compares.
\<close>

record DataSubscription =
  sub_ref :: nat
  key :: string
  handler :: listener

text \<open>
  The methods of the store are asynchronous.  A call is followed to the promise it
  settles: past an open gate the method runs to its end before the next call is looked
  at.  An operation that finds the store not ready leaves a one-shot listener for
  \<^verbatim>\<open>'connected'\<close> on the private emitter and its promise stays pending; the listener
  is recorded with the call that waits behind it.
\<close>

datatype waiter =
    WGet string bool
  | WSet string jsval
  | WSubscribe string listener

record CouchDataStore =
  db :: couch
  following :: bool
  subscriptions :: "DataSubscription list"
  emitter :: "waiter list"
  connected :: bool
  ready :: bool
  allocated :: nat

datatype get_result = Value jsval | Raw document

datatype confirmation = OK

definition connect :: "CouchDataStore \<Rightarrow> CouchDataStore" where
  \<comment> \<open>The existence check is not awaited, so its rejection is never caught; the method
      attaches the change listener and starts the feed.  It assigns neither
      \<^verbatim>\<open>ready\<close> nor \<^verbatim>\<open>connected\<close> and emits nothing.\<close>
  "connect s = s\<lparr>following := True\<rparr>"

definition on_change :: "CouchDataStore \<Rightarrow> document \<Rightarrow> (listener \<times> jsval) list" where
  \<comment> \<open>the listener of the feed's \<^verbatim>\<open>'change'\<close> event: the calls it makes, in order\<close>
  "on_change s doc =
     map (\<lambda>sb. (handler sb, val doc))
       (filter (\<lambda>sb. Some (key sb) = doc_id doc) (subscriptions s))"

definition ensureReady :: "CouchDataStore \<Rightarrow> waiter \<Rightarrow> unit promise \<times> CouchDataStore" where
  "ensureReady s w =
     (if ready s then (Resolved (), s) else (Pending, s\<lparr>emitter := emitter s @ [w]\<rparr>))"

definition get :: "CouchDataStore \<Rightarrow> string \<Rightarrow> bool \<Rightarrow> get_result promise \<times> CouchDataStore" where
  "get s k raw =
     (case ensureReady s (WGet k raw) of
        (Resolved u, s1) \<Rightarrow>
          (case db_get (db s1) k of
             Inr doc \<Rightarrow> (Resolved (if raw then Raw doc else Value (val doc)), s1)
           | Inl e \<Rightarrow>
               (Resolved (if raw then Raw \<lparr>doc_id = None, doc_rev = None, val = Null\<rparr>
                          else Value Null), s1))
      | (Pending, s1) \<Rightarrow> (Pending, s1)
      | (Rejected e, s1) \<Rightarrow> (Rejected e, s1))"

definition as_document :: "get_result \<Rightarrow> document" where
  \<comment> \<open>reading the answer of \<^verbatim>\<open>get(key, true)\<close> as an object; raw mode always answers
      with an object, and a bare value has neither \<^verbatim>\<open>_id\<close> nor \<^verbatim>\<open>_rev\<close>\<close>
  "as_document r =
     (case r of Raw d \<Rightarrow> d | Value v \<Rightarrow> \<lparr>doc_id = None, doc_rev = None, val = Null\<rparr>)"

definition set_val ::
  "CouchDataStore \<Rightarrow> string \<Rightarrow> jsval \<Rightarrow> confirmation promise \<times> CouchDataStore" where
  \<comment> \<open>\<^verbatim>\<open>set(key, val)\<close>; the inserted object is \<^verbatim>\<open>{ ...orig, val }\<close>\<close>
  "set_val s k v =
     (case ensureReady s (WSet k v) of
        (Resolved u, s1) \<Rightarrow>
          (case get s1 k True of
             (Resolved orig, s2) \<Rightarrow>
               (case db_insert (db s2) ((as_document orig)\<lparr>val := v\<rparr>) of
                  Inr c \<Rightarrow> (Resolved OK, s2\<lparr>db := c\<rparr>)
                | Inl e \<Rightarrow> (Rejected e, s2))
           | (Pending, s2) \<Rightarrow> (Pending, s2)
           | (Rejected e, s2) \<Rightarrow> (Rejected e, s2))
      | (Pending, s1) \<Rightarrow> (Pending, s1)
      | (Rejected e, s1) \<Rightarrow> (Rejected e, s1))"

definition del :: "CouchDataStore \<Rightarrow> string \<Rightarrow> confirmation promise \<times> CouchDataStore" where
  "del s k =
     (case get s k True of
        (Resolved orig, s1) \<Rightarrow>
          (case db_destroy (db s1) k (doc_rev (as_document orig)) of
             Inr c \<Rightarrow> (Resolved OK, s1\<lparr>db := c\<rparr>)
           | Inl e \<Rightarrow> (Rejected e, s1))
      | (Pending, s1) \<Rightarrow> (Pending, s1)
      | (Rejected e, s1) \<Rightarrow> (Rejected e, s1))"

definition off :: "nat \<Rightarrow> CouchDataStore \<Rightarrow> CouchDataStore" where
  \<comment> \<open>\<^verbatim>\<open>sub.off = () => this.subscriptions.splice(this.subscriptions.indexOf(sub, 1))\<close>
      for the subscription object with identity \<open>r\<close>\<close>
  "off r s =
     s\<lparr>subscriptions :=
         splice_from (subscriptions s) (indexOf (map sub_ref (subscriptions s)) r 1)\<rparr>"

definition subscribe ::
  "CouchDataStore \<Rightarrow> string \<Rightarrow> listener \<Rightarrow> DataSubscription promise \<times> CouchDataStore" where
  "subscribe s k h =
     (case ensureReady s (WSubscribe k h) of
        (Resolved u, s1) \<Rightarrow>
          (let sb = \<lparr>sub_ref = allocated s1, key = k, handler = h\<rparr>
           in (Resolved sb,
               s1\<lparr>subscriptions := subscriptions s1 @ [sb], allocated := Suc (allocated s1)\<rparr>))
      | (Pending, s1) \<Rightarrow> (Pending, s1)
      | (Rejected e, s1) \<Rightarrow> (Rejected e, s1))"

definition new_store :: "couch \<Rightarrow> CouchDataStore" where
  \<comment> \<open>the constructor and the field initialisers\<close>
  "new_store c =
     \<lparr>db = c, following = False, subscriptions = [], emitter = [],
      connected = False, ready = False, allocated = 0\<rparr>"

text \<open>
  A run of calls on one store.  The outcome of each call is dropped here; the lemmas
  below look at what a run can do to the \<^verbatim>\<open>ready\<close> flag.
\<close>

datatype api =
    Connect
  | Get string bool
  | Set string jsval
  | Del string
  | Subscribe string listener
  | Off nat
  | Change document

fun call :: "api \<Rightarrow> CouchDataStore \<Rightarrow> CouchDataStore" where
  "call Connect s = connect s"
| "call (Get k raw) s = snd (get s k raw)"
| "call (Set k v) s = snd (set_val s k v)"
| "call (Del k) s = snd (del s k)"
| "call (Subscribe k h) s = snd (subscribe s k h)"
| "call (Off r) s = off r s"
| "call (Change d) s = s"

subsection \<open>An empty server\<close>

definition hex_id :: "nat \<Rightarrow> string" where
  \<comment> \<open>stands for the server's identifier generator: 32 hexadecimal digits\<close>
  "hex_id n = replicate (32 - n) (CHR ''0'') @ replicate n (CHR ''f'')"

definition empty_server :: couch where
  "empty_server = \<lparr>docs = Map.empty, uuid_of = hex_id, issued = 0\<rparr>"

definition ready_store :: CouchDataStore where
  \<comment> \<open>a store on the empty server whose public \<^verbatim>\<open>ready\<close> field has been set\<close>
  "ready_store = (new_store empty_server)\<lparr>ready := True\<rparr>"

section \<open>Event emitters\<close>

text \<open>
  Node's \<^verbatim>\<open>EventEmitter\<close>, as far as the module uses it: \<^verbatim>\<open>on\<close> appends a
  listener, \<^verbatim>\<open>removeListener\<close> takes out the most recently added instance of the
  given function and does nothing when there is none, \<^verbatim>\<open>emit\<close> calls the listeners
  of the event in the order they were added.
\<close>

type_synonym EventEmitter = "(string \<times> listener) list"

definition on :: "EventEmitter \<Rightarrow> string \<Rightarrow> listener \<Rightarrow> EventEmitter" where
  "on em ev l = em @ [(ev, l)]"

definition removeListener ::
  "EventEmitter \<Rightarrow> string \<Rightarrow> listener \<Rightarrow> EventEmitter" where
  "removeListener em ev l = rev (remove1 (ev, l) (rev em))"

definition guild_of :: "payload \<Rightarrow> nat option" where
  \<comment> \<open>the guild that the wrapper finds in its argument\<close>
  "guild_of p = (case p of Guild g \<Rightarrow> Some g | WithGuild g \<Rightarrow> Some g | Plain v \<Rightarrow> None)"

text \<open>
  Calling a listener yields the calls of module authors' functions that result.
  \<open>disabled\<close> is the answer of \<^verbatim>\<open>mod.isDisabledForGuild\<close>, which the module manager
  gives.
\<close>

fun invoke :: "(nat \<Rightarrow> bool) \<Rightarrow> listener \<Rightarrow> payload \<Rightarrow> (nat \<times> payload) list" where
  "invoke disabled (Handler h) p = [(h, p)]"
| "invoke disabled (Wrapper c f) p =
     (case guild_of p of
        Some g \<Rightarrow> (if disabled g then [] else invoke disabled f p)
      | None \<Rightarrow> invoke disabled f p)"

definition emit ::
  "(nat \<Rightarrow> bool) \<Rightarrow> EventEmitter \<Rightarrow> string \<Rightarrow> payload \<Rightarrow> (nat \<times> payload) list" where
  "emit disabled em ev p =
     concat (map (\<lambda>(n, l). invoke disabled l p) (filter (\<lambda>(n, l). n = ev) em))"

section \<open>Strings\<close>

fun split_str :: "string \<Rightarrow> char \<Rightarrow> string list" where
  \<comment> \<open>\<^verbatim>\<open>s.split(c)\<close> for a separator of one character\<close>
  "split_str [] c = [[]]"
| "split_str (x # xs) c =
     (if x = c then [] # split_str xs c
      else (case split_str xs c of [] \<Rightarrow> [[x]] | p # ps \<Rightarrow> (x # p) # ps))"

fun join_str :: "string list \<Rightarrow> string \<Rightarrow> string" where
  \<comment> \<open>\<^verbatim>\<open>parts.join(sep)\<close>\<close>
  "join_str [] sep = []"
| "join_str [p] sep = p"
| "join_str (p # q # ps) sep = p @ sep @ join_str (q # ps) sep"

definition lower_char :: "char \<Rightarrow> char" where
  \<comment> \<open>lower case of an ASCII letter\<close>
  "lower_char c =
     (case map_of (zip ''ABCDEFGHIJKLMNOPQRSTUVWXYZ'' ''abcdefghijklmnopqrstuvwxyz'') c of
        Some d \<Rightarrow> d
      | None \<Rightarrow> c)"

section \<open>\<^verbatim>\<open>Module\<close>\<close>

datatype ModuleEventType = Azarasi | Discord | DataStore

record ModuleEvent =
  name :: string
  evName :: "string option"
  ev_handler :: "listener option"
  sub :: "DataSubscription promise option"
  originalHandler :: listener
  etype :: ModuleEventType

datatype trigger = Name string | Pattern string

type_synonym options = "(string \<times> jsval) list"

record command =
  cmd_name :: string
  cmd_trigger :: trigger
  cmd_options :: options
  cmd_handler :: listener
  cmd_module :: "string option"

text \<open>
  One module together with the parts of the framework instance that it reaches through
  \<^verbatim>\<open>this.az\<close> and \<^verbatim>\<open>this.bot\<close>.  \<open>closures\<close> counts the wrappers built so far and
  gives each new one its identity.
\<close>

record world =
  mod_id :: string
  commands :: "string \<rightharpoonup> command"
  events :: "ModuleEvent list"
  closures :: nat
  bot :: EventEmitter
  az_events :: EventEmitter
  az_data :: CouchDataStore
  az_commands :: "command list"
  az_log :: "error list"

definition new_world :: "string \<Rightarrow> CouchDataStore \<Rightarrow> world" where
  "new_world i d =
     \<lparr>mod_id = i, commands = Map.empty, events = [], closures = 0,
      bot = [], az_events = [], az_data = d, az_commands = [], az_log = []\<rparr>"

subsection \<open>Commands\<close>

datatype arg1 = Options options | Function listener

datatype command_or_false = Command command | JFalse

type_synonym registrar =
  "command list \<Rightarrow> trigger \<Rightarrow> options \<Rightarrow> listener \<Rightarrow> (error + command) \<times> command list"

definition logError :: "world \<Rightarrow> error \<Rightarrow> world" where
  "logError w e = w\<lparr>az_log := az_log w @ [e]\<rparr>"

text \<open>
  \<^verbatim>\<open>this.az.commands.register\<close> belongs to the command manager, which is not among the
  sources; \<^verbatim>\<open>registerCommand\<close> takes it as its first parameter.  A registrar
  answers with the new command or with the error it throws, and with the registry it
  leaves behind.  The command object is shared with the registry, so the assignment to
  \<^verbatim>\<open>command.module\<close> shows there too.
\<close>

definition the_handler :: "arg1 \<Rightarrow> listener option \<Rightarrow> listener option" where
  \<comment> \<open>\<^verbatim>\<open>typeof arg1 === 'function' ? arg1 : arg2\<close>\<close>
  "the_handler arg1 arg2 = (case arg1 of Function f \<Rightarrow> Some f | Options opts \<Rightarrow> arg2)"

definition the_options :: "arg1 \<Rightarrow> options" where
  \<comment> \<open>\<^verbatim>\<open>typeof arg1 === 'object' ? arg1 : {}\<close>\<close>
  "the_options arg1 = (case arg1 of Options opts \<Rightarrow> opts | Function f \<Rightarrow> [])"

definition registerCommand ::
  "registrar \<Rightarrow> world \<Rightarrow> trigger \<Rightarrow> arg1 \<Rightarrow> listener option \<Rightarrow>
     error + (command_or_false \<times> world)" where
  "registerCommand az_commands_register w arg0 arg1 arg2 =
     (case the_handler arg1 arg2 of
        None \<Rightarrow> Inl (Error ''No command handler specified.'')
      | Some h \<Rightarrow>
          (case az_commands_register (az_commands w) arg0 (the_options arg1) h of
             (Inr cmd, reg) \<Rightarrow>
               (let cmd' = cmd\<lparr>cmd_module := Some (mod_id w)\<rparr>
                in Inr (Command cmd',
                        w\<lparr>az_commands := map (\<lambda>c. if c = cmd then cmd' else c) reg,
                           commands := (commands w)(cmd_name cmd' \<mapsto> cmd')\<rparr>))
           | (Inl e, reg) \<Rightarrow> Inr (JFalse, logError (w\<lparr>az_commands := reg\<rparr>) e)))"

text \<open>
  Modelled from the spec: \<^verbatim>\<open>CommandManager.register\<close>, which is missing from the
  sources.  It fails with \<open>DuplicateTrigger\<close> if an equal literal name or a textually
  equal pattern already exists; literal names are compared without regard to case.
\<close>

definition trigger_text :: "trigger \<Rightarrow> string" where
  "trigger_text t = (case t of Name n \<Rightarrow> n | Pattern r \<Rightarrow> r)"

definition same_trigger :: "trigger \<Rightarrow> trigger \<Rightarrow> bool" where
  "same_trigger a b =
     (case (a, b) of
        (Name m, Name n) \<Rightarrow> map lower_char m = map lower_char n
      | (Pattern q, Pattern r) \<Rightarrow> q = r
      | _ \<Rightarrow> False)"

definition register :: registrar where
  "register reg t opts h =
     (if list_ex (\<lambda>c. same_trigger (cmd_trigger c) t) reg
      then (Inl (DuplicateTrigger (trigger_text t)), reg)
      else (let cmd = \<lparr>cmd_name = trigger_text t, cmd_trigger = t, cmd_options = opts,
                        cmd_handler = h, cmd_module = None\<rparr>
            in (Inr cmd, reg @ [cmd])))"

subsection \<open>Events\<close>

definition namespace_of :: "string list \<Rightarrow> ModuleEventType" where
  \<comment> \<open>the \<^verbatim>\<open>switch\<close> on \<^verbatim>\<open>nameParts[0]\<close>\<close>
  "namespace_of nameParts =
     (case nameParts of
        [] \<Rightarrow> Azarasi
      | p # ps \<Rightarrow>
          (if p \<in> set [''discord'', ''client'', ''bot''] then Discord
           else if p \<in> set [''db'', ''ds'', ''datastore'', ''database''] then DataStore
           else Azarasi))"

definition registerEvent :: "world \<Rightarrow> string \<Rightarrow> listener \<Rightarrow> world" where
  "registerEvent w nm h =
     (let wrapper = Wrapper (closures w) h;
          w0 = w\<lparr>closures := Suc (closures w)\<rparr>;
          nameParts = split_str nm (CHR ''.'')
      in case namespace_of nameParts of
           Discord \<Rightarrow>
             (let ev = join_str (drop 1 nameParts) ''.''
              in w0\<lparr>bot := on (bot w0) ev wrapper,
                    events := events w0 @
                      [\<lparr>name = nm, evName = Some ev, ev_handler = Some wrapper, sub = None,
                        originalHandler = h, etype = Discord\<rparr>]\<rparr>)
         | DataStore \<Rightarrow>
             (let channelName = join_str (drop 1 nameParts) ''.'';
                  (sb, d) = subscribe (az_data w0) channelName wrapper
              in w0\<lparr>az_data := d,
                    events := events w0 @
                      [\<lparr>name = nm, evName = None, ev_handler = None, sub = Some sb,
                        originalHandler = h, etype = DataStore\<rparr>]\<rparr>)
         | Azarasi \<Rightarrow>
             w0\<lparr>az_events := on (az_events w0) nm h,
                events := events w0 @
                  [\<lparr>name = nm, evName = None, ev_handler = Some wrapper, sub = None,
                    originalHandler = h, etype = Azarasi\<rparr>]\<rparr>)"

text \<open>
  The first half of the loop body of \<^verbatim>\<open>unregisterEvent\<close>: the \<^verbatim>\<open>switch\<close> on the
  type of the binding.  An emitter refuses a listener that is not a function.  The
  \<^verbatim>\<open>sub\<close> of a data store binding is what \<^verbatim>\<open>subscribe\<close> returned, a promise, and a
  promise has no \<^verbatim>\<open>off\<close> to call.
\<close>

definition detach :: "ModuleEvent \<Rightarrow> world \<Rightarrow> error + world" where
  "detach e w =
     (case etype e of
        Discord \<Rightarrow>
          (case ev_handler e of
             None \<Rightarrow> Inl (TypeError ''The listener argument must be of type function'')
           | Some l \<Rightarrow>
               (case evName e of
                  None \<Rightarrow> Inr w
                | Some ev \<Rightarrow> Inr (w\<lparr>bot := removeListener (bot w) ev l\<rparr>)))
      | DataStore \<Rightarrow> Inl (TypeError ''e.sub.off is not a function'')
      | Azarasi \<Rightarrow>
          (case ev_handler e of
             None \<Rightarrow> Inl (TypeError ''The listener argument must be of type function'')
           | Some l \<Rightarrow> Inr (w\<lparr>az_events := removeListener (az_events w) (name e) l\<rparr>)))"

text \<open>
  The \<^verbatim>\<open>forEach\<close> over the bindings that the filter selected; a throw ends it and
  keeps what was done so far.  \<^verbatim>\<open>indexOf\<close> looks for the binding object itself;
  bindings that agree in every field are interchangeable, so comparing the fields leaves
  the same list.
\<close>

fun forEach_remove :: "ModuleEvent list \<Rightarrow> world \<Rightarrow> error option \<times> world" where
  "forEach_remove [] w = (None, w)"
| "forEach_remove (e # es) w =
     (case detach e w of
        Inl err \<Rightarrow> (Some err, w)
      | Inr w1 \<Rightarrow>
          forEach_remove es
            (w1\<lparr>events := splice_js (events w1) (indexOf (events w1) e 0) 1\<rparr>))"

definition unregisterEvent :: "world \<Rightarrow> string \<Rightarrow> listener option \<Rightarrow> error option \<times> world" where
  "unregisterEvent w nm h =
     forEach_remove
       (filter (\<lambda>e. name e = nm \<and> (Some (originalHandler e) = h \<or> h = None)) (events w)) w"

section \<open>\<^verbatim>\<open>Azarasi.processMessage\<close>\<close>

record message =
  author_id :: string  \<comment> \<open>\<^verbatim>\<open>msg.author.id\<close>\<close>
  content :: string

text \<open>
  Of the properties object only the blacklist matters here; it may be left out of the
  configuration.  \<open>dispatched\<close> lists the messages handed to
  \<^verbatim>\<open>this.commands.processMessage\<close>, in order.
\<close>

record properties =
  blacklist :: "string list option"

record Azarasi =
  properties :: properties
  dispatched :: "message list"

definition processMessage :: "Azarasi \<Rightarrow> message \<Rightarrow> Azarasi" where
  "processMessage az msg =
     (if (case blacklist (properties az) of
            None \<Rightarrow> False
          | Some bl \<Rightarrow> indexOf bl (author_id msg) 0 \<ge> 0)
      then az
      else az\<lparr>dispatched := dispatched az @ [msg]\<rparr>)"

section \<open>Example states\<close>

definition ping_world :: world where
  \<comment> \<open>a module facing a registry that already holds the command \<^verbatim>\<open>ping\<close>\<close>
  "ping_world =
     (new_world ''fun'' ready_store)
       \<lparr>az_commands :=
          [\<lparr>cmd_name = ''ping'', cmd_trigger = Name ''ping'', cmd_options = [],
            cmd_handler = Handler 1, cmd_module = None\<rparr>]\<rparr>"

section \<open>Facts about the array operations\<close>

lemma index_aux_absent: "x \<notin> set xs \<Longrightarrow> index_aux xs x i = - 1"
  by (induction xs arbitrary: i) auto

lemma index_aux_present:
  "x \<in> set xs \<Longrightarrow>
     \<exists>n < length xs. index_aux xs x i = int (i + n) \<and> xs ! n = x \<and>
        take n xs @ drop (Suc n) xs = remove1 x xs"
proof (induction xs arbitrary: i)
  case Nil
  then show ?case by simp
next
  case (Cons y ys)
  show ?case
  proof (cases "y = x")
    case True
    then show ?thesis by (intro exI[of _ 0]) simp
  next
    case False
    with Cons.prems have "x \<in> set ys" by simp
    from Cons.IH[OF this, of "Suc i"] obtain n where
      n: "n < length ys" "index_aux ys x (Suc i) = int (Suc i + n)" "ys ! n = x"
         "take n ys @ drop (Suc n) ys = remove1 x ys" by blast
    with False show ?thesis by (intro exI[of _ "Suc n"]) simp
  qed
qed

lemma indexOf_nonneg_iff: "0 \<le> indexOf xs x 0 \<longleftrightarrow> x \<in> set xs"
proof (cases "x \<in> set xs")
  case True
  from index_aux_present[OF this, of 0] show ?thesis
    using True by (auto simp: indexOf_def)
next
  case False
  from index_aux_absent[OF this, of 0] show ?thesis
    using False by (simp add: indexOf_def)
qed

lemma splice_js_indexOf:
  assumes "x \<in> set xs"
  shows "splice_js xs (indexOf xs x 0) 1 = remove1 x xs"
proof -
  from index_aux_present[OF assms, of 0] obtain n where
    n: "n < length xs" "index_aux xs x 0 = int n"
       "take n xs @ drop (Suc n) xs = remove1 x xs"
    by auto
  from n(1) have "min 1 (length xs - n) = 1" by simp
  with n show ?thesis
    by (simp add: splice_js_def indexOf_def actualStart_def Let_def)
qed

section \<open>The data store\<close>

subsection \<open>The gate\<close>

lemma ready_call: "ready (call c s) = ready s"
  by (cases c)
     (auto simp: connect_def get_def set_val_def del_def subscribe_def off_def
         ensureReady_def Let_def split: sum.splits prod.splits promise.splits)

lemma ready_run: "ready (fold call cs s) = ready s"
  by (induction cs arbitrary: s) (simp_all add: ready_call)

lemma waiters_call: "\<exists>ws. emitter (call c s) = emitter s @ ws"
  by (cases c)
     (auto simp: connect_def get_def set_val_def del_def subscribe_def off_def
         ensureReady_def Let_def split: sum.splits prod.splits promise.splits)

lemma waiters_run: "\<exists>ws. emitter (fold call cs s) = emitter s @ ws"
proof (induction cs arbitrary: s)
  case Nil
  then show ?case by simp
next
  case (Cons c cs)
  from waiters_call[of c s] obtain us where "emitter (call c s) = emitter s @ us" ..
  moreover from Cons.IH[of "call c s"] obtain vs where
    "emitter (fold call cs (call c s)) = emitter (call c s) @ vs" ..
  ultimately show ?case by simp
qed

lemma not_ready_pending:
  "\<not> ready s \<Longrightarrow>
     fst (get s k raw) = Pending \<and> fst (set_val s k v) = Pending \<and>
     fst (del s k) = Pending \<and> fst (subscribe s k h) = Pending"
  by (simp add: get_def set_val_def del_def subscribe_def ensureReady_def)

lemma gate_example:
  "let s0 = new_store empty_server;
       (p1, s1) = get s0 ''k'' False;
       s2 = connect s1;
       (p2, s3) = get s2 ''k'' False;
       (p3, s4) = set_val s3 ''k'' (Str ''v'');
       (p4, s5) = subscribe s4 ''k'' (Handler 1)
   in p1 = Pending \<and> p2 = Pending \<and> p3 = Pending \<and> p4 = Pending \<and>
      \<not> ready s5 \<and> \<not> connected s5 \<and>
      emitter s5 =
        [WGet ''k'' False, WGet ''k'' False, WSet ''k'' (Str ''v''),
         WSubscribe ''k'' (Handler 1)]"
  by (simp add: new_store_def connect_def set_val_def get_def subscribe_def ensureReady_def)

text \<open>
  C5: every operation (get, set, subscribe) issued before the backend is ready does not
  fail; it is deferred by the \<^verbatim>\<open>ensureReady\<close> gate and completes once the store
  becomes connected.

  The operations are deferred and do not fail, but nothing completes them: neither
  \<^verbatim>\<open>connect\<close> nor any other method sets \<^verbatim>\<open>ready\<close> or emits \<^verbatim>\<open>'connected'\<close>.
  Whatever calls are made on a newly constructed store, \<^verbatim>\<open>connect\<close> among them, the
  flag stays false and a further get, set or subscribe is pending.
\<close>

theorem gate_never_opens:
  "ready (fold call cs (new_store c)) = False \<and>
   fst (get (fold call cs (new_store c)) k raw) = Pending \<and>
   fst (set_val (fold call cs (new_store c)) k v) = Pending \<and>
   fst (subscribe (fold call cs (new_store c)) k h) = Pending"
proof -
  have "\<not> ready (fold call cs (new_store c))"
    by (simp add: ready_run new_store_def)
  then show ?thesis
    using not_ready_pending by simp
qed

subsection \<open>Reading and writing\<close>

lemma get_never_rejects: "fst (get s k raw) \<noteq> Rejected e"
  by (simp add: get_def ensureReady_def db_get_def split: option.splits sum.splits)

lemma set_get_existing:
  "ready s \<Longrightarrow> docs (db s) k = Some (r, v0) \<Longrightarrow>
     fst (set_val s k v) = Resolved OK \<and>
     fst (get (snd (set_val s k v)) k False) = Resolved (Value v)"
  by (simp add: set_val_def get_def ensureReady_def db_get_def db_insert_def db_put_def
      as_document_def)

lemma del_get:
  "ready s \<Longrightarrow> fst (get (snd (del s k)) k False) = Resolved (Value Null)"
  by (auto simp add: del_def get_def ensureReady_def db_get_def db_destroy_def
      as_document_def split: option.splits)

text \<open>
  C4: for every key \<open>k\<close> and value \<open>v\<close>, awaiting \<^verbatim>\<open>set(k, v)\<close> and then \<^verbatim>\<open>get(k)\<close>
  returns \<open>v\<close>, including when \<open>k\<close> had no previously stored document; and awaiting
  \<^verbatim>\<open>del(k)\<close> and then \<^verbatim>\<open>get(k)\<close> returns null.

  For a key without a document the object that \<^verbatim>\<open>set\<close> inserts is \<^verbatim>\<open>{ val }\<close>: it
  carries no \<^verbatim>\<open>_id\<close>, so the server files it under an identifier of its own and the
  key stays empty.  On the empty server, with the gate open, \<^verbatim>\<open>set('k', 'v')\<close> is
  confirmed and the following \<^verbatim>\<open>get('k')\<close> answers null.
\<close>

theorem set_new_key_not_readable:
  "let (p1, s1) = set_val ready_store ''k'' (Str ''v'');
       (p2, s2) = get s1 ''k'' False
   in p1 = Resolved OK \<and> p2 = Resolved (Value Null) \<and>
      docs (db s2) ''k'' = None \<and>
      docs (db s2) (hex_id 0) = Some (1, Str ''v'')"
  by (simp add: ready_store_def new_store_def empty_server_def set_val_def get_def
      ensureReady_def db_get_def db_insert_def db_put_def as_document_def hex_id_def
      eval_nat_numeral)

lemma get_past_gate:
  "ready s \<Longrightarrow> docs (db s) k = None \<Longrightarrow>
     fst (get s k raw) =
       Resolved (if raw then Raw \<lparr>doc_id = None, doc_rev = None, val = Null\<rparr>
                 else Value Null)"
  by (simp add: get_def ensureReady_def db_get_def)

text \<open>
  C7: for every key with no stored value, \<^verbatim>\<open>get(key)\<close> returns null, or
  \<^verbatim>\<open>{ val: null }\<close> in raw mode, and never rejects or throws for a key that is not
  found.

  The call never rejects, and its \<^verbatim>\<open>catch\<close> would answer null, but it has to pass
  \<^verbatim>\<open>ensureReady\<close> first.  On a store as the constructor and \<^verbatim>\<open>connect\<close> leave it
  the gate is closed: \<^verbatim>\<open>get\<close> for a key without a document, plain or raw, returns
  nothing, its promise stays pending and only a listener is left on the emitter.
\<close>

theorem get_missing_key_stays_pending:
  "let s1 = connect (new_store empty_server);
       (p1, s2) = get s1 ''nokey'' False;
       (p2, s3) = get s2 ''nokey'' True
   in docs (db s1) ''nokey'' = None \<and>
      p1 = Pending \<and> p1 \<noteq> Resolved (Value Null) \<and>
      p2 = Pending \<and>
      p2 \<noteq> Resolved (Raw \<lparr>doc_id = None, doc_rev = None, val = Null\<rparr>) \<and>
      ready s3 = False \<and>
      emitter s3 = [WGet ''nokey'' False, WGet ''nokey'' True]"
  by (simp add: new_store_def empty_server_def connect_def get_def ensureReady_def)

subsection \<open>Subscriptions\<close>

lemma off_not_found:
  assumes "r \<notin> set (drop 1 (map sub_ref (subscriptions s)))"
  shows "subscriptions (off r s) = butlast (subscriptions s)"
proof -
  from index_aux_absent[OF assms, of 1]
  have "indexOf (map sub_ref (subscriptions s)) r 1 = - 1"
    by (simp add: indexOf_def)
  moreover have "nat (max (int (length (subscriptions s)) - 1) 0) =
      length (subscriptions s) - 1"
    by arith
  ultimately show ?thesis
    by (simp add: off_def splice_from_def actualStart_def butlast_conv_take)
qed

lemma off_found:
  assumes "r \<in> set (drop 1 (map sub_ref (subscriptions s)))"
  shows "\<exists>n. 1 \<le> n \<and> n < length (subscriptions s) \<and>
           sub_ref (subscriptions s ! n) = r \<and>
           subscriptions (off r s) = take n (subscriptions s)"
proof -
  from index_aux_present[OF assms, of 1] obtain m where
    m: "m < length (drop 1 (map sub_ref (subscriptions s)))"
       "index_aux (drop 1 (map sub_ref (subscriptions s))) r 1 = int (1 + m)"
       "drop 1 (map sub_ref (subscriptions s)) ! m = r"
    by blast
  from m(1) have len: "Suc m < length (subscriptions s)" by simp
  from m(3) len have "sub_ref (subscriptions s ! Suc m) = r" by simp
  moreover have "nat (1 + int m) = Suc m" by arith
  with m(2) len have "subscriptions (off r s) = take (Suc m) (subscriptions s)"
    by (simp add: off_def splice_from_def actualStart_def indexOf_def)
  ultimately show ?thesis using len by (intro exI[of _ "Suc m"]) simp
qed

text \<open>
  C1: for every \<^verbatim>\<open>DataSubscription\<close> returned by \<^verbatim>\<open>subscribe(key, handler)\<close>, once
  its \<^verbatim>\<open>off()\<close> has returned, the handler is never invoked again for any subsequent
  change on that key.

  \<^verbatim>\<open>off\<close> searches for the subscription from index 1 on and cuts the table from the
  index it gets.  With two subscriptions on \<^verbatim>\<open>'k'\<close>, cancelling the first one does
  not find it, cuts off the last entry instead, and the next change on \<^verbatim>\<open>'k'\<close> still
  calls the first handler.
\<close>

theorem off_keeps_first_subscription:
  "let (p1, s1) = subscribe ready_store ''k'' (Handler 1);
       (p2, s2) = subscribe s1 ''k'' (Handler 2);
       s3 = off 0 s2
   in p1 = Resolved \<lparr>sub_ref = 0, key = ''k'', handler = Handler 1\<rparr> \<and>
      p2 = Resolved \<lparr>sub_ref = 1, key = ''k'', handler = Handler 2\<rparr> \<and>
      subscriptions s3 = [\<lparr>sub_ref = 0, key = ''k'', handler = Handler 1\<rparr>] \<and>
      on_change s3 \<lparr>doc_id = Some ''k'', doc_rev = Some 1, val = Str ''v''\<rparr> =
        [(Handler 1, Str ''v'')]"
  by (simp add: ready_store_def new_store_def subscribe_def ensureReady_def off_def
      indexOf_def splice_from_def actualStart_def on_change_def Let_def)

text \<open>
  C6: \<^verbatim>\<open>off()\<close> on one subscription removes at most that single subscription from the
  fan-out table; every other registered subscription remains present afterwards and its
  handler still fires for subsequent changes to its key.

  With three subscriptions, cancelling the second one cuts the table from its index to
  the end: the third subscription goes with it, and a change to its key reaches nobody.
\<close>

theorem off_removes_later_subscriptions:
  "let (p1, s1) = subscribe ready_store ''a'' (Handler 1);
       (p2, s2) = subscribe s1 ''b'' (Handler 2);
       (p3, s3) = subscribe s2 ''c'' (Handler 3);
       s4 = off 1 s3
   in p2 = Resolved \<lparr>sub_ref = 1, key = ''b'', handler = Handler 2\<rparr> \<and>
      map sub_ref (subscriptions s3) = [0, 1, 2] \<and>
      map sub_ref (subscriptions s4) = [0] \<and>
      on_change s3 \<lparr>doc_id = Some ''c'', doc_rev = Some 1, val = Num 9\<rparr> =
        [(Handler 3, Num 9)] \<and>
      on_change s4 \<lparr>doc_id = Some ''c'', doc_rev = Some 1, val = Num 9\<rparr> = []"
  by (simp add: ready_store_def new_store_def subscribe_def ensureReady_def off_def
      indexOf_def splice_from_def actualStart_def on_change_def Let_def)

section \<open>The module\<close>

subsection \<open>Commands\<close>

text \<open>
  C9: when the underlying command registration throws, for example on a duplicate trigger
  or name, \<^verbatim>\<open>Module.registerCommand\<close> catches the error, reports it by logging and
  by returning false, does not propagate the exception, and leaves the module's commands
  map unchanged.

  This holds for any registrar: if a handler was given and the registrar throws \<open>e\<close>,
  the call returns false, \<open>e\<close> is appended to the log, and the module's map is the one
  it was.
\<close>

theorem registerCommand_catches:
  "the_handler arg1 arg2 = Some h \<Longrightarrow>
   az_commands_register (az_commands w) arg0 (the_options arg1) h = (Inl e, reg) \<Longrightarrow>
     registerCommand az_commands_register w arg0 arg1 arg2 =
       Inr (JFalse, logError (w\<lparr>az_commands := reg\<rparr>) e) \<and>
     commands (logError (w\<lparr>az_commands := reg\<rparr>) e) = commands w \<and>
     az_log (logError (w\<lparr>az_commands := reg\<rparr>) e) = az_log w @ [e]"
  by (simp add: registerCommand_def logError_def)

theorem registerCommand_catches_witness:
  "the_handler (Function (Handler 2)) None = Some (Handler 2) \<and>
   register (az_commands ping_world) (Name ''PING'') (the_options (Function (Handler 2)))
       (Handler 2) =
     (Inl (DuplicateTrigger ''PING''), az_commands ping_world) \<and>
   registerCommand register ping_world (Name ''PING'') (Function (Handler 2)) None =
     Inr (JFalse, ping_world\<lparr>az_log := [DuplicateTrigger ''PING'']\<rparr>) \<and>
   commands (ping_world\<lparr>az_log := [DuplicateTrigger ''PING'']\<rparr>) = commands ping_world"
proof -
  have given: "the_handler (Function (Handler 2)) None = Some (Handler 2)"
    by (simp add: the_handler_def)
  have thrown:
    "register (az_commands ping_world) (Name ''PING'') (the_options (Function (Handler 2)))
         (Handler 2) =
       (Inl (DuplicateTrigger ''PING''), az_commands ping_world)"
    by (simp add: register_def ping_world_def same_trigger_def the_options_def
        lower_char_def trigger_text_def)
  have same: "logError ping_world (DuplicateTrigger ''PING'') =
      ping_world\<lparr>az_log := [DuplicateTrigger ''PING'']\<rparr>"
    by (simp add: logError_def ping_world_def new_world_def)
  from registerCommand_catches[where az_commands_register = register and w = ping_world,
      OF given thrown] given thrown
  show ?thesis by (simp add: same)
qed

subsection \<open>Events\<close>

lemma detach_events: "detach e w = Inr w1 \<Longrightarrow> events w1 = events w"
  by (auto simp: detach_def split: ModuleEventType.splits option.splits)

lemma forEach_remove_events:
  "forEach_remove es w = (None, w') \<Longrightarrow> mset es \<subseteq># mset (events w) \<Longrightarrow>
     mset (events w') = mset (events w) - mset es"
proof (induction es arbitrary: w)
  case Nil
  then show ?case by simp
next
  case (Cons e es)
  from Cons.prems(1) obtain w1 where d: "detach e w = Inr w1"
    by (auto split: sum.splits)
  define w2 where
    "w2 = w1\<lparr>events := splice_js (events w1) (indexOf (events w1) e 0) 1\<rparr>"
  from Cons.prems(1) d have run: "forEach_remove es w2 = (None, w')"
    by (simp add: w2_def)
  have ev1: "events w1 = events w"
    using d by (rule detach_events)
  from Cons.prems(2) have mem: "e \<in> set (events w)"
    by (metis mset_subset_eq_insertD set_mset_mset mset.simps(2))
  have ev2: "events w2 = remove1 e (events w)"
    using splice_js_indexOf[OF mem] by (simp add: w2_def ev1)
  have sub: "mset es \<subseteq># mset (events w2)"
    using Cons.prems(2) mem by (simp add: ev2 insert_subset_eq_iff)
  from Cons.IH[OF run sub] show ?case
    by (simp add: ev2)
qed

lemma wrapper_guards:
  "guild_of p = Some g \<Longrightarrow> disabled g \<Longrightarrow> invoke disabled (Wrapper c f) p = []"
  by simp

lemma discord_binding:
  "let w1 = registerEvent (new_world ''m'' ready_store) ''discord.guildCreate'' (Handler 7);
       (r, w2) = unregisterEvent w1 ''discord.guildCreate'' (Some (Handler 7))
   in bot w1 = [(''guildCreate'', Wrapper 0 (Handler 7))] \<and>
      emit (\<lambda>g. g = 5) (bot w1) ''guildCreate'' (Guild 5) = [] \<and>
      emit (\<lambda>g. g = 5) (bot w1) ''guildCreate'' (Guild 6) = [(7, Guild 6)] \<and>
      r = None \<and> events w2 = [] \<and> bot w2 = []"
  by (simp add: registerEvent_def new_world_def namespace_of_def on_def unregisterEvent_def
      detach_def removeListener_def splice_js_def indexOf_def actualStart_def emit_def
      guild_of_def Let_def)

lemma datastore_binding:
  "let w1 = registerEvent (new_world ''m'' ready_store) ''db.Guild.1'' (Handler 7);
       (r, w2) = unregisterEvent w1 ''db.Guild.1'' (Some (Handler 7))
   in map handler (subscriptions (az_data w1)) = [Wrapper 0 (Handler 7)] \<and>
      r = Some (TypeError ''e.sub.off is not a function'') \<and> events w2 = events w1"
  by (simp add: registerEvent_def new_world_def namespace_of_def unregisterEvent_def
      detach_def ready_store_def new_store_def subscribe_def ensureReady_def Let_def)

text \<open>
  C2: for every event name and every handler \<open>h\<close>, \<^verbatim>\<open>registerEvent(name, h)\<close> followed
  by \<^verbatim>\<open>unregisterEvent(name, h)\<close> guarantees that \<open>h\<close> is never invoked for any
  subsequent event matching the name, in all three namespaces.

  On the framework bus \<^verbatim>\<open>registerEvent\<close> attaches \<open>h\<close> itself, while the binding
  records the wrapper and \<^verbatim>\<open>unregisterEvent\<close> asks the bus to remove the wrapper,
  which was never attached.  The binding leaves the module's list, \<open>h\<close> stays on the bus,
  and the next \<^verbatim>\<open>tick\<close> calls it.
\<close>

theorem unregisterEvent_keeps_bus_listener:
  "let w1 = registerEvent (new_world ''m'' ready_store) ''tick'' (Handler 7);
       (r, w2) = unregisterEvent w1 ''tick'' (Some (Handler 7))
   in r = None \<and> events w2 = [] \<and> az_events w2 = [(''tick'', Handler 7)] \<and>
      emit (\<lambda>g. False) (az_events w2) ''tick'' (Plain Null) = [(7, Plain Null)]"
  by (simp add: registerEvent_def new_world_def namespace_of_def on_def unregisterEvent_def
      detach_def removeListener_def splice_js_def indexOf_def actualStart_def emit_def
      Let_def)

text \<open>
  C3: for every binding created by \<^verbatim>\<open>registerEvent\<close>, in every namespace, the handler
  attached to the event source is the guard wrapper, so that when the payload is a guild
  or carries a \<^verbatim>\<open>guild\<close> field and the module is disabled for that guild, the original
  handler is not called.

  On the framework bus the function attached is the original handler, not the wrapper
  that the binding records.  With the module disabled for guild 5, an event of the bus
  whose payload is guild 5 still calls the handler.
\<close>

theorem registerEvent_bus_attaches_raw_handler:
  "let w1 = registerEvent (new_world ''m'' ready_store) ''guildSettings'' (Handler 7)
   in az_events w1 = [(''guildSettings'', Handler 7)] \<and>
      map ev_handler (events w1) = [Some (Wrapper 0 (Handler 7))] \<and>
      emit (\<lambda>g. g = 5) (az_events w1) ''guildSettings'' (Guild 5) = [(7, Guild 5)]"
  by (simp add: registerEvent_def new_world_def namespace_of_def on_def emit_def Let_def)

text \<open>
  C8: \<^verbatim>\<open>Module.unregisterEvent\<close> is idempotent: for any name and optional handler,
  calling it a second time with the same arguments after a successful removal is a no-op
  on the module's event-binding list and never throws an error.

  After a call that returned normally no binding matches any more, so the second call
  returns normally and leaves everything as it was, the list of bindings included.
\<close>

theorem unregisterEvent_idempotent:
  assumes "unregisterEvent w nm h = (None, w')"
  shows "unregisterEvent w' nm h = (None, w')"
proof -
  let ?P = "\<lambda>e. name e = nm \<and> (Some (originalHandler e) = h \<or> h = None)"
  have "mset (events w') = mset (events w) - mset (filter ?P (events w))"
    using assms unfolding unregisterEvent_def
    by (rule forEach_remove_events) simp
  then have "filter_mset ?P (mset (events w')) =
      filter_mset ?P (mset (events w)) - filter_mset ?P (mset (filter ?P (events w)))"
    by (simp only: filter_diff_mset)
  also have "filter_mset ?P (mset (filter ?P (events w))) = filter_mset ?P (mset (events w))"
    by (simp only: mset_filter filter_filter_mset) simp
  finally have "mset (filter ?P (events w')) = {#}"
    by (simp only: mset_filter) simp
  then have "filter ?P (events w') = []" by simp
  then show ?thesis by (simp add: unregisterEvent_def)
qed

theorem unregisterEvent_idempotent_witness:
  "let w1 = registerEvent (new_world ''m'' ready_store) ''discord.message'' (Handler 1);
       w2 = snd (unregisterEvent w1 ''discord.message'' (Some (Handler 1)))
   in fst (unregisterEvent w1 ''discord.message'' (Some (Handler 1))) = None \<and>
      length (events w1) = 1 \<and> events w2 = [] \<and>
      unregisterEvent w2 ''discord.message'' (Some (Handler 1)) = (None, w2)"
proof -
  define w1 where
    "w1 = registerEvent (new_world ''m'' ready_store) ''discord.message'' (Handler 1)"
  define w2 where "w2 = snd (unregisterEvent w1 ''discord.message'' (Some (Handler 1)))"
  have first: "fst (unregisterEvent w1 ''discord.message'' (Some (Handler 1))) = None"
    and before: "length (events w1) = 1"
    and after: "events w2 = []"
    by (simp_all add: w1_def w2_def registerEvent_def new_world_def namespace_of_def on_def
        unregisterEvent_def detach_def removeListener_def splice_js_def indexOf_def
        actualStart_def Let_def)
  from first have "unregisterEvent w1 ''discord.message'' (Some (Handler 1)) = (None, w2)"
    by (simp add: w2_def prod_eq_iff)
  from unregisterEvent_idempotent[OF this] first before after
  show ?thesis by (simp add: w1_def w2_def)
qed

section \<open>The blacklist\<close>

lemma processMessage_no_blacklist:
  "blacklist (properties az) = None \<Longrightarrow>
     dispatched (processMessage az msg) = dispatched az @ [msg]"
  by (simp add: processMessage_def)

lemma processMessage_dispatches:
  "blacklist (properties az) = Some bl \<Longrightarrow> author_id msg \<notin> set bl \<Longrightarrow>
     dispatched (processMessage az msg) = dispatched az @ [msg]"
  using indexOf_nonneg_iff[of bl "author_id msg"] by (simp add: processMessage_def)

text \<open>
  C10: for every inbound message whose author id appears in the configured blacklist,
  \<^verbatim>\<open>Azarasi.processMessage\<close> returns without invoking command dispatch, so no handler
  runs for blacklisted authors.

  Nothing is handed to \<^verbatim>\<open>commands.processMessage\<close>: the instance is left as it was.
\<close>

theorem processMessage_blacklisted:
  "blacklist (properties az) = Some bl \<Longrightarrow> author_id msg \<in> set bl \<Longrightarrow>
     processMessage az msg = az \<and> dispatched (processMessage az msg) = dispatched az"
  by (simp add: processMessage_def indexOf_nonneg_iff)

theorem processMessage_blacklisted_witness:
  "blacklist (properties
      \<lparr>properties = \<lparr>blacklist = Some [''7'', ''42'']\<rparr>, dispatched = []\<rparr>) =
     Some [''7'', ''42''] \<and>
   author_id \<lparr>author_id = ''42'', content = ''--ping''\<rparr> \<in> set [''7'', ''42''] \<and>
   dispatched
     (processMessage \<lparr>properties = \<lparr>blacklist = Some [''7'', ''42'']\<rparr>, dispatched = []\<rparr>
        \<lparr>author_id = ''42'', content = ''--ping''\<rparr>) = []"
proof -
  have listed:
    "blacklist (properties
        \<lparr>properties = \<lparr>blacklist = Some [''7'', ''42'']\<rparr>, dispatched = []\<rparr>) =
       Some [''7'', ''42'']"
    by simp
  have author: "author_id \<lparr>author_id = ''42'', content = ''--ping''\<rparr> \<in> set [''7'', ''42'']"
    by simp
  from processMessage_blacklisted[OF listed author] listed author
  show ?thesis by simp
qed

end
